theory Spec2Isabelle
  imports Main "HOL-Library.Multiset"
begin

section \<open>Data model\<close>

text \<open>
  A naive Python \<^verbatim>\<open>datetime\<close> (and the value of a \<^verbatim>\<open>DateTime\<close> column) is
  modelled as its offset in microseconds from a fixed origin: the only structure the code
  relies on is that two datetimes can be compared, which \<^verbatim>\<open>ORDER BY\<close> does.
\<close>

type_synonym datetime = int

text \<open>
  A Python \<^verbatim>\<open>datetime\<close> object as a request can carry it: naive, or aware, which is a
  wall-clock reading together with its offset from UTC. An aware and a naive datetime
  are never equal.
\<close>

datatype py_datetime = Naive datetime | Aware datetime int

text \<open>
  \<^verbatim>\<open>schemas.BloodPressureReadingBase\<close>: the three measured fields. Python integers are
  unbounded, hence \<open>int\<close>.
\<close>

record BloodPressureReadingBase =
  systolic :: int
  diastolic :: int
  heart_rate :: int

text \<open>
  \<^verbatim>\<open>schemas.BloodPressureReadingCreate\<close>: the request body of a creation. Its
  \<^verbatim>\<open>timestamp\<close> field is \<^verbatim>\<open>Optional[datetime]\<close> with default \<^verbatim>\<open>None\<close>, and the schema
  takes naive and aware datetimes alike; the field is named \<open>timestamp_opt\<close> here
  because the stored row has a field \<open>timestamp\<close> of another type.
\<close>

record BloodPressureReadingCreate = BloodPressureReadingBase +
  timestamp_opt :: "py_datetime option"

text \<open>
  \<^verbatim>\<open>models.BloodPressureReading\<close>, a row of the table \<^verbatim>\<open>blood_pressure_readings\<close>, and
  \<^verbatim>\<open>schemas.BloodPressureReading\<close>, the response built from it attribute by attribute
  (\<^verbatim>\<open>from_attributes = True\<close>). The column \<^verbatim>\<open>id\<close> is named \<open>row_id\<close>, since \<open>id\<close> is
  the identity function of HOL. The column \<^verbatim>\<open>timestamp\<close> is a \<^verbatim>\<open>DateTime\<close> without time
  zone: what it holds and returns is a naive datetime.
\<close>

record BloodPressureReading = BloodPressureReadingBase +
  row_id :: int
  timestamp :: datetime

text \<open>
  The database behind a session: the rows of the table in insertion order, and the
  sequence \<^verbatim>\<open>blood_pressure_readings_id_seq\<close> that numbers new rows, held as the value the
  next \<^verbatim>\<open>nextval\<close> returns.
\<close>

record database =
  table :: "BloodPressureReading list"
  id_seq :: int

definition empty_database :: database where
  "empty_database = \<lparr>table = [], id_seq = 1\<rparr>"

text \<open>
  The states the application can reach: \<^verbatim>\<open>id\<close> is the primary key, so no two rows share
  one, and every id in the table was handed out by the sequence, so it lies below the
  sequence's next value.
\<close>

definition ids :: "database \<Rightarrow> int list" where
  "ids db = map row_id (table db)"

definition wf_database :: "database \<Rightarrow> bool" where
  "wf_database db \<longleftrightarrow> distinct (ids db) \<and> list_all (\<lambda>i. i < id_seq db) (ids db)"

section \<open>Errors\<close>

text \<open>
  What a request can answer besides its result: 404 is raised by the handlers themselves
  (\<^verbatim>\<open>HTTPException(status_code=404)\<close>), 422 by the framework when a declared constraint
  of a parameter or of the body fails, and 500 when a handler lets an exception of the
  database escape.
\<close>

datatype http_error = HTTP_404 | HTTP_422 | HTTP_500

text \<open>
  The Python exceptions the code can meet: \<^verbatim>\<open>KeyError\<close> of a dictionary lookup (with
  the key), \<^verbatim>\<open>TypeError\<close> (with the offending name), \<^verbatim>\<open>ValueError\<close> of a failed
  conversion, and the errors of the database drivers: \<^verbatim>\<open>OperationalError\<close> (no such
  table), \<^verbatim>\<open>IntegrityError\<close> (primary key or \<^verbatim>\<open>NOT NULL\<close> violated), \<^verbatim>\<open>DataError\<close> (a
  value the column type refuses).
\<close>

datatype py_error =
    KeyError string
  | TypeError string
  | ValueError
  | OperationalError
  | IntegrityError
  | DataError

section \<open>Statements the handlers send to the database\<close>

text \<open>\<^verbatim>\<open>nextval\<close> of the id sequence: returns the next value and advances the sequence.\<close>

definition nextval :: "database \<Rightarrow> int \<times> database" where
  "nextval db = (id_seq db, db\<lparr>id_seq := id_seq db + 1\<rparr>)"

text \<open>
  The primary-key check and the write of an \<^verbatim>\<open>INSERT\<close>, for a row whose id is known:
  an id that is already in the table is refused.
\<close>

definition insert_row :: "BloodPressureReading \<Rightarrow> database \<Rightarrow> py_error + database" where
  "insert_row r db =
     (if row_id r \<in> set (ids db) then Inl IntegrityError
      else Inr (db\<lparr>table := table db @ [r]\<rparr>))"

text \<open>
  The columns \<^verbatim>\<open>id\<close>, \<^verbatim>\<open>systolic\<close>, \<^verbatim>\<open>diastolic\<close> and \<^verbatim>\<open>heart_rate\<close> are of type
  \<^verbatim>\<open>Integer\<close>, which holds 32 bits.
\<close>

definition int32 :: "int \<Rightarrow> bool" where
  "int32 v \<longleftrightarrow> - 2147483648 \<le> v \<and> v \<le> 2147483647"

text \<open>
  The values an \<^verbatim>\<open>INSERT\<close> carries. An integer column whose attribute is unset or
  \<^verbatim>\<open>None\<close> is left out of the statement (\<open>None\<close> here); the timestamp is always there.
\<close>

record insert_values =
  v_id :: "int option"
  v_systolic :: "int option"
  v_diastolic :: "int option"
  v_heart_rate :: "int option"
  v_timestamp :: datetime

definition int32_opt :: "int option \<Rightarrow> bool" where
  "int32_opt v = (case v of None \<Rightarrow> True | Some n \<Rightarrow> int32 n)"

text \<open>
  One \<^verbatim>\<open>INSERT\<close> into the table, in the order the database goes through it. A value
  that does not fit its column is refused before the statement runs. Then the id that
  was left out is drawn from the sequence, which keeps the value drawn whatever happens
  next. Then a measured column that was left out violates \<^verbatim>\<open>NOT NULL\<close>, and the row
  goes through the primary-key check. The result is the row written. An id the sequence
  hands out is not checked against the 32 bits: the sequence is taken not to run out.
\<close>

definition execute_insert ::
  "insert_values \<Rightarrow> database \<Rightarrow> (py_error + BloodPressureReading) \<times> database" where
  "execute_insert vals db =
     (if \<not> (int32_opt (v_id vals) \<and> int32_opt (v_systolic vals) \<and>
              int32_opt (v_diastolic vals) \<and> int32_opt (v_heart_rate vals))
      then (Inl DataError, db)
      else
        (let (new_id, db1) = (case v_id vals of Some n \<Rightarrow> (n, db) | None \<Rightarrow> nextval db)
         in case (v_systolic vals, v_diastolic vals, v_heart_rate vals) of
              (Some s, Some d, Some h) \<Rightarrow>
                (let r = \<lparr>systolic = s, diastolic = d, heart_rate = h, row_id = new_id,
                          timestamp = v_timestamp vals\<rparr>
                 in case insert_row r db1 of
                      Inl e \<Rightarrow> (Inl e, db1)
                    | Inr db2 \<Rightarrow> (Inr r, db2))
            | _ \<Rightarrow> (Inl IntegrityError, db1)))"

text \<open>
  What the \<^verbatim>\<open>DateTime\<close> column makes of the datetime bound to it. A naive datetime is
  kept as it is. Of an aware one the column keeps a naive datetime without the offset;
  which one depends on the database and its time zone setting, configured in
  \<^verbatim>\<open>src/database.py\<close>, which is not among the sources: it is the parameter \<open>to_naive\<close>,
  from the wall-clock reading and the offset to the value kept.
\<close>

definition column_datetime :: "(datetime \<Rightarrow> int \<Rightarrow> datetime) \<Rightarrow> py_datetime \<Rightarrow> datetime" where
  "column_datetime to_naive d = (case d of Naive t \<Rightarrow> t | Aware t off \<Rightarrow> to_naive t off)"

text \<open>\<^verbatim>\<open>query(...).filter(id == reading_id).first()\<close>: the first row with that id, if any.\<close>

definition query_first_by_id :: "int \<Rightarrow> database \<Rightarrow> BloodPressureReading option" where
  "query_first_by_id reading_id db = find (\<lambda>r. row_id r = reading_id) (table db)"

text \<open>
  \<^verbatim>\<open>order_by(timestamp.desc())\<close>. SQL leaves the order of rows with equal timestamps
  open; the model keeps them in insertion order (a stable sort on the negated timestamp).
\<close>

definition order_by_timestamp_desc :: "BloodPressureReading list \<Rightarrow> BloodPressureReading list" where
  "order_by_timestamp_desc rows = sort_key (\<lambda>r. - timestamp r) rows"

text \<open>
  \<^verbatim>\<open>.offset(skip).limit(limit)\<close> on a result list. \<^verbatim>\<open>OFFSET\<close> and \<^verbatim>\<open>LIMIT\<close> are 64-bit
  values that must not be negative: the database refuses any other value, whatever the
  table holds.
\<close>

definition offset_limit :: "int \<Rightarrow> int \<Rightarrow> 'a list \<Rightarrow> py_error + 'a list" where
  "offset_limit skip limit rows =
     (if skip < 0 \<or> 9223372036854775807 < skip \<or> limit < 0 \<or> 9223372036854775807 < limit
      then Inl DataError
      else Inr (take (nat limit) (drop (nat skip) rows)))"

text \<open>\<^verbatim>\<open>DELETE ... WHERE id = ?\<close>, as \<^verbatim>\<open>db.delete(reading)\<close> issues it at commit.\<close>

definition delete_by_id :: "int \<Rightarrow> database \<Rightarrow> database" where
  "delete_by_id i db = db\<lparr>table := filter (\<lambda>r. row_id r \<noteq> i) (table db)\<rparr>"

section \<open>The handlers of \<^verbatim>\<open>routers/readings.py\<close>\<close>

text \<open>
  Each handler takes the database and returns its answer with the database after the
  request. \<^verbatim>\<open>get_readings\<close>: the query of lines 34 to 36; it writes nothing, and an
  exception of the query leaves the handler as a 500.
\<close>

definition get_readings ::
  "int \<Rightarrow> int \<Rightarrow> database \<Rightarrow> (http_error + BloodPressureReading list) \<times> database" where
  "get_readings skip limit db =
     (case offset_limit skip limit (order_by_timestamp_desc (table db)) of
        Inl e \<Rightarrow> (Inl HTTP_500, db)
      | Inr readings \<Rightarrow> (Inr readings, db))"

text \<open>
  \<^verbatim>\<open>create_reading\<close>. \<open>now\<close> is what \<^verbatim>\<open>datetime.now()\<close> returns during the call, a naive
  datetime. The expression \<^verbatim>\<open>reading.timestamp or datetime.now()\<close> takes the supplied
  timestamp unless it is \<^verbatim>\<open>None\<close> (every datetime is truthy). The object is built
  without an id, from keywords that all name columns of the class; the \<^verbatim>\<open>INSERT\<close> of
  \<^verbatim>\<open>db.commit()\<close> binds the timestamp to its column and draws the id from the sequence,
  and an exception of the commit leaves the handler as a 500. \<^verbatim>\<open>db.refresh\<close> reads the
  row back by its id.
\<close>

definition create_reading ::
  "(datetime \<Rightarrow> int \<Rightarrow> datetime) \<Rightarrow> datetime \<Rightarrow> BloodPressureReadingCreate \<Rightarrow> database
     \<Rightarrow> (http_error + BloodPressureReading) \<times> database" where
  "create_reading to_naive now reading db =
     (let ts = (case timestamp_opt reading of Some d \<Rightarrow> d | None \<Rightarrow> Naive now);
          db_reading = \<lparr>v_id = None, v_systolic = Some (systolic reading),
                        v_diastolic = Some (diastolic reading),
                        v_heart_rate = Some (heart_rate reading),
                        v_timestamp = column_datetime to_naive ts\<rparr>
      in case execute_insert db_reading db of
           (Inl e, db1) \<Rightarrow> (Inl HTTP_500, db1)
         | (Inr inserted, db2) \<Rightarrow>
             (case query_first_by_id (row_id inserted) db2 of
                None \<Rightarrow> (Inl HTTP_500, db2)
              | Some refreshed \<Rightarrow> (Inr refreshed, db2)))"

definition get_reading ::
  "int \<Rightarrow> database \<Rightarrow> (http_error + BloodPressureReading) \<times> database" where
  "get_reading reading_id db =
     (case query_first_by_id reading_id db of
        None \<Rightarrow> (Inl HTTP_404, db)
      | Some reading \<Rightarrow> (Inr reading, db))"

definition delete_reading :: "int \<Rightarrow> database \<Rightarrow> (http_error + unit) \<times> database" where
  "delete_reading reading_id db =
     (case query_first_by_id reading_id db of
        None \<Rightarrow> (Inl HTTP_404, db)
      | Some reading \<Rightarrow> (Inr (), delete_by_id (row_id reading) db))"

definition delete_all_readings :: "database \<Rightarrow> (http_error + unit) \<times> database" where
  "delete_all_readings db = (Inr (), db\<lparr>table := []\<rparr>)"

section \<open>The endpoints: declared constraints, then the handler\<close>

text \<open>
  The bounds of \<^verbatim>\<open>schemas.BloodPressureReadingBase\<close>: \<^verbatim>\<open>ge=40, le=300\<close>,
  \<^verbatim>\<open>ge=20, le=200\<close>, \<^verbatim>\<open>ge=20, le=250\<close>.
\<close>

definition validate_base :: "'a BloodPressureReadingBase_scheme \<Rightarrow> bool" where
  "validate_base r \<longleftrightarrow>
     40 \<le> systolic r \<and> systolic r \<le> 300 \<and>
     20 \<le> diastolic r \<and> diastolic r \<le> 200 \<and>
     20 \<le> heart_rate r \<and> heart_rate r \<le> 250"

text \<open>
  \<^verbatim>\<open>GET /readings/\<close>: a query parameter left out (\<open>None\<close>) takes the default of its
  \<^verbatim>\<open>Query(...)\<close>, \<^verbatim>\<open>skip = Query(0, ge=0)\<close> and \<^verbatim>\<open>limit = Query(100, ge=1, le=100)\<close>; a
  value outside the declared range is answered with 422 and the handler does not run.
  \<^verbatim>\<open>skip\<close> has no upper bound.
\<close>

definition GET_readings ::
  "int option \<Rightarrow> int option \<Rightarrow> database
     \<Rightarrow> (http_error + BloodPressureReading list) \<times> database" where
  "GET_readings skip_param limit_param db =
     (let skip = (case skip_param of None \<Rightarrow> 0 | Some v \<Rightarrow> v);
          limit = (case limit_param of None \<Rightarrow> 100 | Some v \<Rightarrow> v)
      in if 0 \<le> skip \<and> 1 \<le> limit \<and> limit \<le> 100 then get_readings skip limit db
         else (Inl HTTP_422, db))"

definition POST_readings ::
  "(datetime \<Rightarrow> int \<Rightarrow> datetime) \<Rightarrow> datetime \<Rightarrow> BloodPressureReadingCreate \<Rightarrow> database
     \<Rightarrow> (http_error + BloodPressureReading) \<times> database" where
  "POST_readings to_naive now body db =
     (if validate_base body then create_reading to_naive now body db else (Inl HTTP_422, db))"

section \<open>The migration script \<^verbatim>\<open>scripts/migrate_sqlite_to_postgres.py\<close>\<close>

subsection \<open>Python values and dictionaries\<close>

text \<open>
  The values a column of an SQLite row can hold (integer, text, \<^verbatim>\<open>NULL\<close>), and the
  datetime that \<^verbatim>\<open>datetime.fromisoformat\<close> builds from a text. The texts a
  \<^verbatim>\<open>DateTime\<close> column of SQLite holds carry no offset, so the datetime is a naive one.
\<close>

datatype pyval = PyInt int | PyStr string | PyNone | PyDatetime datetime

text \<open>
  \<^verbatim>\<open>dict(reading)\<close>: the columns of one source row by name, and \<^verbatim>\<open>d[k]\<close>, which raises
  \<^verbatim>\<open>KeyError\<close> when the key is absent.
\<close>

type_synonym pydict = "(string \<times> pyval) list"

definition getitem :: "pydict \<Rightarrow> string \<Rightarrow> py_error + pyval" where
  "getitem d k = (case map_of d k of None \<Rightarrow> Inl (KeyError k) | Some v \<Rightarrow> Inr v)"

text \<open>Sequencing of steps that may raise: the first exception ends the computation.\<close>

definition and_then :: "'e + 'a \<Rightarrow> ('a \<Rightarrow> 'e + 'b) \<Rightarrow> 'e + 'b" where
  "and_then m f = (case m of Inl e \<Rightarrow> Inl e | Inr v \<Rightarrow> f v)"

text \<open>
  \<^verbatim>\<open>datetime.fromisoformat\<close>: \<^verbatim>\<open>TypeError\<close> unless the argument is a string,
  \<^verbatim>\<open>ValueError\<close> when the string is not an ISO date. The parser itself belongs to the
  Python library; it is the parameter \<open>parse\<close>, with \<open>None\<close> for a string it refuses.
\<close>

definition fromisoformat :: "(string \<Rightarrow> datetime option) \<Rightarrow> pyval \<Rightarrow> py_error + pyval" where
  "fromisoformat parse v =
     (case v of
        PyStr s \<Rightarrow> (case parse s of None \<Rightarrow> Inl ValueError | Some t \<Rightarrow> Inr (PyDatetime t))
      | _ \<Rightarrow> Inl (TypeError ''fromisoformat''))"

subsection \<open>The mapped class and its constructor\<close>

text \<open>The columns \<^verbatim>\<open>models.BloodPressureReading\<close> declares.\<close>

definition mapped_attributes :: "string list" where
  "mapped_attributes = [''id'', ''systolic'', ''diastolic'', ''heart_rate'', ''timestamp'']"

text \<open>
  The constructor a declarative class inherits: it goes through the keyword arguments in
  order, raises \<^verbatim>\<open>TypeError\<close> at the first one that names no attribute of the class, and
  sets the others on the new object. The result is the object's attribute dictionary.
\<close>

fun declarative_constructor :: "pydict \<Rightarrow> py_error + pydict" where
  "declarative_constructor [] = Inr []"
| "declarative_constructor ((k, v) # kwargs) =
     (if k \<notin> set mapped_attributes then Inl (TypeError k)
      else and_then (declarative_constructor kwargs) (\<lambda>attrs. Inr ((k, v) # attrs)))"

text \<open>
  Lines 56 to 66: the keyword arguments are evaluated from left to right, each lookup
  raising \<^verbatim>\<open>KeyError\<close> on a missing column, and then the constructor is called. The
  class takes its constructor from \<^verbatim>\<open>Base\<close>, which \<^verbatim>\<open>src/database.py\<close> defines and
  which is not among the sources: the constructor is the parameter \<open>init\<close>. For a
  \<^verbatim>\<open>Base\<close> made by \<^verbatim>\<open>declarative_base()\<close>, whose import \<^verbatim>\<open>models.py\<close> carries, it is
  \<open>declarative_constructor\<close>.
\<close>

definition new_reading ::
  "(pydict \<Rightarrow> py_error + pydict) \<Rightarrow> (string \<Rightarrow> datetime option) \<Rightarrow> pydict
     \<Rightarrow> py_error + pydict" where
  "new_reading init parse reading_dict =
     and_then (getitem reading_dict ''id'') (\<lambda>v_id.
     and_then (getitem reading_dict ''systolic'') (\<lambda>v_systolic.
     and_then (getitem reading_dict ''diastolic'') (\<lambda>v_diastolic.
     and_then (getitem reading_dict ''heart_rate'') (\<lambda>v_heart_rate.
     and_then (getitem reading_dict ''timestamp'') (\<lambda>v_text.
     and_then (fromisoformat parse v_text) (\<lambda>v_timestamp.
     and_then (getitem reading_dict ''note'') (\<lambda>v_note.
       init
         [(''id'', v_id), (''systolic'', v_systolic), (''diastolic'', v_diastolic),
          (''heart_rate'', v_heart_rate), (''timestamp'', v_timestamp),
          (''note'', v_note)])))))))"

subsection \<open>The session on the target database\<close>

text \<open>
  A session holds the rows as committed, the database as its open transaction sees it
  (with the id sequence, which is not transactional: it is shared and never rolled back)
  and the objects added with \<^verbatim>\<open>db.add\<close> that no \<^verbatim>\<open>INSERT\<close> has written yet.
\<close>

record session =
  committed :: "BloodPressureReading list"
  txn :: database
  pending :: "pydict list"

definition SessionLocal :: "database \<Rightarrow> session" where
  "SessionLocal db = \<lparr>committed = table db, txn = db, pending = []\<rparr>"

definition db_add :: "pydict \<Rightarrow> session \<Rightarrow> session" where
  "db_add obj db = db\<lparr>pending := pending db @ [obj]\<rparr>"

text \<open>
  Binding the attributes of an object to the columns of its \<^verbatim>\<open>INSERT\<close>. An attribute
  that is unset or \<^verbatim>\<open>None\<close> is left out of the statement; for the timestamp the column
  default \<^verbatim>\<open>func.now()\<close> then gives the clock \<open>db_now\<close> of the server. A text in an
  integer column of SQLite is one that is not a number, which the target refuses before
  the statement runs.
\<close>

definition int_attr :: "pydict \<Rightarrow> string \<Rightarrow> py_error + int option" where
  "int_attr obj c =
     (case map_of obj c of
        Some (PyInt n) \<Rightarrow> Inr (Some n)
      | Some PyNone \<Rightarrow> Inr None
      | None \<Rightarrow> Inr None
      | Some _ \<Rightarrow> Inl DataError)"

definition timestamp_attr :: "datetime \<Rightarrow> pydict \<Rightarrow> py_error + datetime" where
  "timestamp_attr db_now obj =
     (case map_of obj ''timestamp'' of
        Some (PyDatetime t) \<Rightarrow> Inr t
      | Some PyNone \<Rightarrow> Inr db_now
      | None \<Rightarrow> Inr db_now
      | Some _ \<Rightarrow> Inl DataError)"

definition bind_params :: "datetime \<Rightarrow> pydict \<Rightarrow> py_error + insert_values" where
  "bind_params db_now obj =
     and_then (int_attr obj ''id'') (\<lambda>p_id.
     and_then (int_attr obj ''systolic'') (\<lambda>p_systolic.
     and_then (int_attr obj ''diastolic'') (\<lambda>p_diastolic.
     and_then (int_attr obj ''heart_rate'') (\<lambda>p_heart_rate.
     and_then (timestamp_attr db_now obj) (\<lambda>p_timestamp.
       Inr \<lparr>v_id = p_id, v_systolic = p_systolic, v_diastolic = p_diastolic,
            v_heart_rate = p_heart_rate, v_timestamp = p_timestamp\<rparr>)))))"

text \<open>
  The \<^verbatim>\<open>INSERT\<close> of one pending object into the open transaction, through
  \<open>execute_insert\<close> on the database the transaction sees.
\<close>

definition insert_object :: "datetime \<Rightarrow> pydict \<Rightarrow> session \<Rightarrow> (py_error + unit) \<times> session" where
  "insert_object db_now obj db =
     (case bind_params db_now obj of
        Inl e \<Rightarrow> (Inl e, db)
      | Inr vals \<Rightarrow>
          (case execute_insert vals (txn db) of
             (Inl e, t1) \<Rightarrow> (Inl e, db\<lparr>txn := t1\<rparr>)
           | (Inr r, t2) \<Rightarrow> (Inr (), db\<lparr>txn := t2\<rparr>)))"

text \<open>
  The flush at the start of a commit: the pending objects are inserted in the order they
  were added. It stops at the first one the database refuses, the transaction then
  holding the rows written before it.
\<close>

fun flush :: "datetime \<Rightarrow> pydict list \<Rightarrow> session \<Rightarrow> (py_error + unit) \<times> session" where
  "flush db_now [] db = (Inr (), db\<lparr>pending := []\<rparr>)"
| "flush db_now (obj # objs) db =
     (case insert_object db_now obj db of
        (Inl e, db1) \<Rightarrow> (Inl e, db1)
      | (Inr u, db1) \<Rightarrow> flush db_now objs db1)"

text \<open>
  \<^verbatim>\<open>db.commit()\<close> makes the rows of the transaction the committed ones when the flush
  went through and raises otherwise, the transaction then still holding what the flush
  wrote. \<^verbatim>\<open>db.rollback()\<close> takes the transaction back to the committed rows and drops
  the pending objects. \<^verbatim>\<open>db.close()\<close> rolls back whatever transaction is open and
  leaves the database.
\<close>

definition db_commit :: "datetime \<Rightarrow> session \<Rightarrow> (py_error + unit) \<times> session" where
  "db_commit db_now db =
     (case flush db_now (pending db) db of
        (Inl e, db1) \<Rightarrow> (Inl e, db1)
      | (Inr u, db1) \<Rightarrow> (Inr (), db1\<lparr>committed := table (txn db1)\<rparr>))"

definition db_rollback :: "session \<Rightarrow> session" where
  "db_rollback db = db\<lparr>txn := (txn db)\<lparr>table := committed db\<rparr>, pending := []\<rparr>"

definition db_close :: "session \<Rightarrow> database" where
  "db_close db = txn (db_rollback db)"

text \<open>\<^verbatim>\<open>SELECT MAX(id)\<close>: \<^verbatim>\<open>NULL\<close> on an empty table.\<close>

fun max_id :: "int list \<Rightarrow> int option" where
  "max_id [] = None"
| "max_id (i # is) = (case max_id is of None \<Rightarrow> Some i | Some m \<Rightarrow> Some (max i m))"

text \<open>
  Lines 75 to 77: \<^verbatim>\<open>setval\<close> of the id sequence to the largest id of the table, after
  which \<^verbatim>\<open>nextval\<close> returns the value above it. \<^verbatim>\<open>setval\<close> of \<^verbatim>\<open>NULL\<close> does nothing, and
  a value below the sequence's minimum of 1 is an error. The statement is passed as a
  plain string, which the session is taken to accept.
\<close>

definition execute_setval :: "session \<Rightarrow> (py_error + unit) \<times> session" where
  "execute_setval db =
     (case max_id (ids (txn db)) of
        None \<Rightarrow> (Inr (), db)
      | Some m \<Rightarrow>
          if m < 1 then (Inl DataError, db)
          else (Inr (), db\<lparr>txn := (txn db)\<lparr>id_seq := m + 1\<rparr>\<rparr>))"

subsection \<open>The source database\<close>

text \<open>
  The SQLite file at \<^verbatim>\<open>SQLITE_DB_PATH\<close>: missing, without the table, or with the rows of
  the table. The only statement the script sends it is a \<^verbatim>\<open>SELECT *\<close>, which returns
  the rows and the file as it was.
\<close>

datatype sqlite_file = NoFile | NoTable | Table "pydict list"

definition sqlite_fetchall :: "sqlite_file \<Rightarrow> (py_error + pydict list) \<times> sqlite_file" where
  "sqlite_fetchall src =
     (case src of Table rows \<Rightarrow> (Inr rows, src) | _ \<Rightarrow> (Inl OperationalError, src))"

subsection \<open>\<^verbatim>\<open>migrate_data\<close>\<close>

text \<open>The loop of lines 54 to 69: build an object from each row and add it to the session.\<close>

fun add_readings ::
  "(pydict \<Rightarrow> py_error + pydict) \<Rightarrow> (string \<Rightarrow> datetime option) \<Rightarrow> pydict list \<Rightarrow> session
     \<Rightarrow> (py_error + unit) \<times> session" where
  "add_readings init parse [] db = (Inr (), db)"
| "add_readings init parse (reading # readings) db =
     (case new_reading init parse reading of
        Inl e \<Rightarrow> (Inl e, db)
      | Inr obj \<Rightarrow> add_readings init parse readings (db_add obj db))"

text \<open>
  The body of the \<^verbatim>\<open>try\<close> block, lines 47 to 80: it returns the number of rows read, or
  the exception raised, with the source and the session as they are at that point.
\<close>

definition migrate_try ::
  "(pydict \<Rightarrow> py_error + pydict) \<Rightarrow> (string \<Rightarrow> datetime option) \<Rightarrow> datetime \<Rightarrow> sqlite_file
     \<Rightarrow> session \<Rightarrow> (py_error + nat) \<times> sqlite_file \<times> session" where
  "migrate_try init parse db_now src db =
     (case sqlite_fetchall src of
        (Inl e, src1) \<Rightarrow> (Inl e, src1, db)
      | (Inr readings, src1) \<Rightarrow>
          (case add_readings init parse readings db of
             (Inl e, db1) \<Rightarrow> (Inl e, src1, db1)
           | (Inr u1, db1) \<Rightarrow>
               (case db_commit db_now db1 of
                  (Inl e, db2) \<Rightarrow> (Inl e, src1, db2)
                | (Inr u2, db2) \<Rightarrow>
                    (case execute_setval db2 of
                       (Inl e, db3) \<Rightarrow> (Inl e, src1, db3)
                     | (Inr u3, db3) \<Rightarrow>
                         (case db_commit db_now db3 of
                            (Inl e, db4) \<Rightarrow> (Inl e, src1, db4)
                          | (Inr u4, db4) \<Rightarrow> (Inr (length readings), src1, db4))))))"

text \<open>
  What a run of the script reports: the early return of line 33, the success message
  with the number of rows, or the error message of the \<^verbatim>\<open>except\<close> clause.
\<close>

datatype outcome = NotFound | Migrated nat | Failed py_error

text \<open>
  \<^verbatim>\<open>migrate_data\<close>, for a given constructor of \<^verbatim>\<open>Base\<close>: without the source file it
  returns at once; otherwise it opens a session on the target (whose table exists after
  \<^verbatim>\<open>create_all\<close>, line 41), runs the \<^verbatim>\<open>try\<close> block, rolls back in the \<^verbatim>\<open>except\<close>
  clause and closes the session in the \<^verbatim>\<open>finally\<close> clause. It returns the outcome, the
  source and the target after the run.
\<close>

definition migrate_data_with ::
  "(pydict \<Rightarrow> py_error + pydict) \<Rightarrow> (string \<Rightarrow> datetime option) \<Rightarrow> datetime \<Rightarrow> sqlite_file
     \<Rightarrow> database \<Rightarrow> outcome \<times> sqlite_file \<times> database" where
  "migrate_data_with init parse db_now src tgt =
     (case src of
        NoFile \<Rightarrow> (NotFound, src, tgt)
      | _ \<Rightarrow>
          (case migrate_try init parse db_now src (SessionLocal tgt) of
             (Inl e, src1, db1) \<Rightarrow> (Failed e, src1, db_close (db_rollback db1))
           | (Inr n, src1, db1) \<Rightarrow> (Migrated n, src1, db_close db1)))"

text \<open>\<^verbatim>\<open>migrate_data\<close> with the constructor of a declarative \<^verbatim>\<open>Base\<close>.\<close>

definition migrate_data ::
  "(string \<Rightarrow> datetime option) \<Rightarrow> datetime \<Rightarrow> sqlite_file \<Rightarrow> database
     \<Rightarrow> outcome \<times> sqlite_file \<times> database" where
  "migrate_data parse db_now src tgt =
     migrate_data_with declarative_constructor parse db_now src tgt"

section \<open>The operations of the reading store\<close>

text \<open>
  The five requests of the router as one type, and the database each of them leaves
  behind. \<open>now\<close> is the clock a creation reads, \<open>to_naive\<close> what the timestamp column
  makes of an aware datetime.
\<close>

datatype operation =
    List_readings "int option" "int option"
  | Create_reading BloodPressureReadingCreate
  | Get_reading int
  | Delete_reading int
  | Delete_all_readings

fun perform ::
  "(datetime \<Rightarrow> int \<Rightarrow> datetime) \<Rightarrow> datetime \<Rightarrow> operation \<Rightarrow> database \<Rightarrow> database" where
  "perform to_naive now (List_readings skip_param limit_param) db =
     snd (GET_readings skip_param limit_param db)"
| "perform to_naive now (Create_reading body) db = snd (POST_readings to_naive now body db)"
| "perform to_naive now (Get_reading reading_id) db = snd (get_reading reading_id db)"
| "perform to_naive now (Delete_reading reading_id) db = snd (delete_reading reading_id db)"
| "perform to_naive now Delete_all_readings db = snd (delete_all_readings db)"

section \<open>Example data\<close>

text \<open>A database with three readings; the reading with id 3 has been deleted.\<close>

definition example_db :: database where
  "example_db =
     \<lparr>table =
        [\<lparr>systolic = 120, diastolic = 80, heart_rate = 60, row_id = 1, timestamp = 10\<rparr>,
         \<lparr>systolic = 135, diastolic = 85, heart_rate = 72, row_id = 2, timestamp = 30\<rparr>,
         \<lparr>systolic = 110, diastolic = 70, heart_rate = 65, row_id = 4, timestamp = 20\<rparr>],
      id_seq = 5\<rparr>"

text \<open>A database with 101 readings, one more than a page of the list holds.\<close>

definition numbered_reading :: "int \<Rightarrow> BloodPressureReading" where
  "numbered_reading i =
     \<lparr>systolic = 120, diastolic = 80, heart_rate = 60, row_id = i, timestamp = 1000 + i\<rparr>"

definition long_db :: database where
  "long_db = \<lparr>table = map numbered_reading [1..101], id_seq = 102\<rparr>"

text \<open>
  A timestamp column that keeps of an aware datetime its reading in UTC, and one that
  keeps the wall-clock reading and drops the offset.
\<close>

definition utc_column :: "datetime \<Rightarrow> int \<Rightarrow> datetime" where
  "utc_column t off = t - off"


text \<open>
  A source table with the rows 1 to 5, once with the columns \<^verbatim>\<open>models.py\<close> declares and
  once with a further column \<^verbatim>\<open>note\<close>; a parser that knows two dates; and an object as
  \<^verbatim>\<open>db.add\<close> receives it.
\<close>

definition example_parse :: "string \<Rightarrow> datetime option" where
  "example_parse s =
     (if s = ''2024-01-01 08:00:00'' then Some 0
      else if s = ''2024-01-02 08:00:00'' then Some 86400000000
      else None)"

definition source_row :: "int \<Rightarrow> pydict" where
  "source_row i =
     [(''id'', PyInt i), (''systolic'', PyInt (120 + i)), (''diastolic'', PyInt 80),
      (''heart_rate'', PyInt 60), (''timestamp'', PyStr ''2024-01-01 08:00:00'')]"

definition source_row_note :: "int \<Rightarrow> pydict" where
  "source_row_note i = source_row i @ [(''note'', PyNone)]"

definition five_rows :: "pydict list" where
  "five_rows = [source_row 1, source_row 2, source_row 3, source_row 4, source_row 5]"

definition five_rows_note :: "pydict list" where
  "five_rows_note =
     [source_row_note 1, source_row_note 2, source_row_note 3, source_row_note 4,
      source_row_note 5]"

definition example_object :: "int \<Rightarrow> pydict" where
  "example_object i =
     [(''id'', PyInt i), (''systolic'', PyInt 125), (''diastolic'', PyInt 80),
      (''heart_rate'', PyInt 60), (''timestamp'', PyDatetime 5)]"




section \<open>Lookups by id\<close>

lemma query_first_by_id_None:
  "i \<notin> set (ids db) \<Longrightarrow> query_first_by_id i db = None"
  by (auto simp: query_first_by_id_def ids_def find_None_iff)



lemma query_first_by_id_in:
  "query_first_by_id i db = Some r \<Longrightarrow> r \<in> set (table db) \<and> row_id r = i"
  by (auto simp: query_first_by_id_def find_Some_iff)

lemma find_append_None: "find P xs = None \<Longrightarrow> find P (xs @ ys) = find P ys"
  by (induction xs) (auto split: if_splits)

section \<open>Creation on a well-formed database\<close>

lemma id_seq_fresh: "wf_database db \<Longrightarrow> id_seq db \<notin> set (ids db)"
  by (auto simp: wf_database_def list_all_iff)

lemma validate_base_int32:
  "validate_base r \<Longrightarrow> int32 (systolic r) \<and> int32 (diastolic r) \<and> int32 (heart_rate r)"
  by (simp add: validate_base_def int32_def)


text \<open>
  An \<^verbatim>\<open>INSERT\<close> without id, of values that fit their columns, into a well-formed
  database: the id drawn from the sequence is new and the row is appended.
\<close>

lemma execute_insert_wf:
  assumes "wf_database db" and "int32 s" and "int32 d" and "int32 h"
  shows "execute_insert
           \<lparr>v_id = None, v_systolic = Some s, v_diastolic = Some d, v_heart_rate = Some h,
            v_timestamp = t\<rparr> db =
    (Inr \<lparr>systolic = s, diastolic = d, heart_rate = h, row_id = id_seq db, timestamp = t\<rparr>,
     \<lparr>table = table db @
        [\<lparr>systolic = s, diastolic = d, heart_rate = h, row_id = id_seq db, timestamp = t\<rparr>],
       id_seq = id_seq db + 1\<rparr>)"
proof -
  have "id_seq db \<notin> set (map row_id (table db))"
    using id_seq_fresh [OF assms(1)] by (simp add: ids_def)
  with assms(2-4) show ?thesis
    by (cases db)
      (simp add: execute_insert_def int32_opt_def nextval_def insert_row_def ids_def Let_def)
qed

text \<open>
  On a well-formed database, for a body within the bounds, the handler returns the row
  it appended.
\<close>

lemma create_reading_wf:
  assumes "wf_database db" and "validate_base reading"
  shows "create_reading to_naive now reading db =
    (Inr \<lparr>systolic = systolic reading, diastolic = diastolic reading,
          heart_rate = heart_rate reading, row_id = id_seq db,
          timestamp = column_datetime to_naive
            (case timestamp_opt reading of Some d \<Rightarrow> d | None \<Rightarrow> Naive now)\<rparr>,
     \<lparr>table = table db @ [\<lparr>systolic = systolic reading, diastolic = diastolic reading,
          heart_rate = heart_rate reading, row_id = id_seq db,
          timestamp = column_datetime to_naive
            (case timestamp_opt reading of Some d \<Rightarrow> d | None \<Rightarrow> Naive now)\<rparr>],
       id_seq = id_seq db + 1\<rparr>)"
proof -
  let ?r = "\<lparr>systolic = systolic reading, diastolic = diastolic reading,
          heart_rate = heart_rate reading, row_id = id_seq db,
          timestamp = column_datetime to_naive
            (case timestamp_opt reading of Some d \<Rightarrow> d | None \<Rightarrow> Naive now)\<rparr>"
  have "id_seq db \<notin> set (map row_id (table db))"
    using id_seq_fresh [OF assms(1)] by (simp add: ids_def)
  then have "find (\<lambda>r. row_id r = id_seq db) (table db) = None"
    by (force simp: find_None_iff)
  then have "find (\<lambda>r. row_id r = id_seq db) (table db @ [?r]) = Some ?r"
    by (simp add: find_append_None)
  then show ?thesis
    using validate_base_int32 [OF assms(2)]
    by (simp add: create_reading_def execute_insert_wf [OF assms(1)] query_first_by_id_def
        Let_def)
qed

section \<open>Well-formedness is kept by every request\<close>

lemma wf_empty_database: "wf_database empty_database"
  by (simp add: wf_database_def empty_database_def ids_def)


lemma wf_nextval: "wf_database db \<Longrightarrow> wf_database (db\<lparr>id_seq := id_seq db + 1\<rparr>)"
  by (auto simp: wf_database_def ids_def list_all_iff)

lemma wf_after_insert:
  assumes "wf_database db"
  shows "wf_database (snd (execute_insert
           \<lparr>v_id = None, v_systolic = Some s, v_diastolic = Some d, v_heart_rate = Some h,
            v_timestamp = t\<rparr> db))"
proof (cases "int32 s \<and> int32 d \<and> int32 h")
  case True
  with assms show ?thesis
    by (auto simp: execute_insert_wf wf_database_def ids_def list_all_iff)
next
  case False
  with assms show ?thesis
    by (auto simp: execute_insert_def int32_opt_def)
qed

lemma wf_after_create:
  assumes "wf_database db"
  shows "wf_database (snd (create_reading to_naive now reading db))"
proof -
  let ?vals = "\<lparr>v_id = None, v_systolic = Some (systolic reading),
      v_diastolic = Some (diastolic reading), v_heart_rate = Some (heart_rate reading),
      v_timestamp = column_datetime to_naive
        (case timestamp_opt reading of Some d \<Rightarrow> d | None \<Rightarrow> Naive now)\<rparr>"
  have "snd (create_reading to_naive now reading db) = snd (execute_insert ?vals db)"
    by (simp add: create_reading_def Let_def split: prod.splits sum.splits option.splits)
  with wf_after_insert [OF assms] show ?thesis
    by simp
qed

lemma wf_after_post:
  "wf_database db \<Longrightarrow> wf_database (snd (POST_readings to_naive now body db))"
  by (simp add: POST_readings_def wf_after_create)

lemma wf_after_delete:
  "wf_database db \<Longrightarrow> wf_database (snd (delete_reading reading_id db))"
  by (auto simp: delete_reading_def delete_by_id_def wf_database_def ids_def list_all_iff
      distinct_map_filter split: option.splits)

lemma wf_after_delete_all:
  "wf_database db \<Longrightarrow> wf_database (snd (delete_all_readings db))"
  by (simp add: delete_all_readings_def wf_database_def ids_def)

lemma get_readings_readonly: "snd (get_readings skip limit db) = db"
  by (simp add: get_readings_def split: sum.splits)

lemma GET_readings_readonly: "snd (GET_readings skip_param limit_param db) = db"
  by (simp add: GET_readings_def get_readings_readonly Let_def)

lemma wf_perform: "wf_database db \<Longrightarrow> wf_database (perform to_naive now op db)"
  by (cases op)
    (simp_all add: wf_after_post wf_after_delete wf_after_delete_all GET_readings_readonly
      get_reading_def split: option.splits)

section \<open>The ordered, windowed list\<close>

lemma sorted_desc_order_by:
  "sorted_wrt (\<lambda>a b. timestamp b \<le> timestamp a) (order_by_timestamp_desc rows)"
proof -
  have "sorted (map (\<lambda>r. - timestamp r) (order_by_timestamp_desc rows))"
    unfolding order_by_timestamp_desc_def by (rule sorted_sort_key)
  then show ?thesis
    by (simp add: sorted_map)
qed

lemma mset_order_by: "mset (order_by_timestamp_desc rows) = mset rows"
  by (simp add: order_by_timestamp_desc_def)

lemma offset_limit_in_range:
  "0 \<le> skip \<Longrightarrow> skip \<le> 9223372036854775807 \<Longrightarrow> 0 \<le> limit \<Longrightarrow> limit \<le> 100 \<Longrightarrow>
     offset_limit skip limit xs = Inr (take (nat limit) (drop (nat skip) xs))"
  by (simp add: offset_limit_def)

lemma sorted_wrt_window:
  "sorted_wrt P xs \<Longrightarrow> sorted_wrt P (take n (drop m xs))"
  by (intro sorted_wrt_take sorted_wrt_drop)

lemma sorted_wrt_split:
  "sorted_wrt P xs \<Longrightarrow> a \<in> set (take n xs) \<Longrightarrow> b \<in> set (drop n xs) \<Longrightarrow> P a b"
  by (metis append_take_drop_id sorted_wrt_append)

section \<open>Claims about the reading store\<close>



text \<open>
  C4, as the code has it. For every database, every \<open>skip\<close> from 0 to \<open>2^63 - 1\<close> and
  every \<open>limit\<close> from 1 to 100, the list returns at most \<open>limit\<close> readings: the window
  that \<open>skip\<close> and \<open>limit\<close> cut out of the rows of the table put in descending order of
  timestamp (a rearrangement of exactly those rows); in the returned sequence every
  timestamp is at least the timestamps after it. The database is not changed.
\<close>

theorem list_window_sorted:
  assumes "0 \<le> skip" and "skip \<le> 9223372036854775807" and "1 \<le> limit" and "limit \<le> 100"
  shows "\<exists>rs. GET_readings (Some skip) (Some limit) db = (Inr rs, db) \<and>
           int (length rs) \<le> limit \<and>
           rs = take (nat limit) (drop (nat skip) (order_by_timestamp_desc (table db))) \<and>
           mset (order_by_timestamp_desc (table db)) = mset (table db) \<and>
           sorted_wrt (\<lambda>a b. timestamp b \<le> timestamp a) (order_by_timestamp_desc (table db)) \<and>
           sorted_wrt (\<lambda>a b. timestamp b \<le> timestamp a) rs"
proof -
  let ?rs = "take (nat limit) (drop (nat skip) (order_by_timestamp_desc (table db)))"
  have "offset_limit skip limit (order_by_timestamp_desc (table db)) = Inr ?rs"
    using assms by (intro offset_limit_in_range) simp_all
  then have "GET_readings (Some skip) (Some limit) db = (Inr ?rs, db)"
    using assms by (simp add: GET_readings_def get_readings_def)
  moreover have "int (length ?rs) \<le> limit"
    using assms(3) by simp
  moreover have "sorted_wrt (\<lambda>a b. timestamp b \<le> timestamp a) ?rs"
    by (intro sorted_wrt_window sorted_desc_order_by)
  ultimately show ?thesis
    using mset_order_by sorted_desc_order_by by metis
qed

theorem list_window_sorted_witness:
  "(0::int) \<le> 1 \<and> (1::int) \<le> 9223372036854775807 \<and> (1::int) \<le> 2 \<and> (2::int) \<le> 100 \<and>
   GET_readings (Some 1) (Some 2) example_db =
     (Inr [\<lparr>systolic = 110, diastolic = 70, heart_rate = 65, row_id = 4, timestamp = 20\<rparr>,
           \<lparr>systolic = 120, diastolic = 80, heart_rate = 60, row_id = 1, timestamp = 10\<rparr>],
      example_db)"
  using list_window_sorted [of 1 2 example_db]
  by (simp add: example_db_def order_by_timestamp_desc_def)

text \<open>
  C4 as stated, for every \<open>skip \<ge> 0\<close>, does not hold: \<open>skip = 2^63\<close> passes the
  declared constraint \<^verbatim>\<open>ge=0\<close>, the database refuses it as an \<^verbatim>\<open>OFFSET\<close>, and the
  request is answered with 500 instead of a sequence of readings.
\<close>

theorem list_huge_skip_fails:
  "GET_readings (Some 9223372036854775808) (Some 1) example_db = (Inl HTTP_500, example_db)"
  by (simp add: GET_readings_def get_readings_def offset_limit_def)



text \<open>
  C6. For every id that no row of the table has, reading it and deleting it both answer
  404, as a value the handler returns, and the deletion leaves the database as it was.
\<close>

theorem absent_id_not_found:
  assumes "reading_id \<notin> set (ids db)"
  shows "get_reading reading_id db = (Inl HTTP_404, db) \<and>
         delete_reading reading_id db = (Inl HTTP_404, db)"
  using assms by (simp add: get_reading_def delete_reading_def query_first_by_id_None)

theorem absent_id_not_found_witness:
  "3 \<notin> set (ids example_db) \<and>
   get_reading 3 example_db = (Inl HTTP_404, example_db) \<and>
   delete_reading 3 example_db = (Inl HTTP_404, example_db)"
proof -
  have h: "3 \<notin> set (ids example_db)"
    by (simp add: ids_def example_db_def)
  show ?thesis
    using h absent_id_not_found [OF h] by simp
qed

text \<open>
  C7, as the code has it. For every database, deleting all readings completes and
  empties the table, and a list sent afterwards, with any \<open>skip\<close> from 0 to \<open>2^63 - 1\<close>
  and \<open>limit\<close> from 1 to 100 or with both left out, returns the empty sequence.
\<close>

theorem delete_all_then_list_empty:
  assumes "0 \<le> skip" and "skip \<le> 9223372036854775807" and "1 \<le> limit" and "limit \<le> 100"
  shows "fst (delete_all_readings db) = Inr () \<and>
         table (snd (delete_all_readings db)) = [] \<and>
         GET_readings (Some skip) (Some limit) (snd (delete_all_readings db)) =
           (Inr [], snd (delete_all_readings db)) \<and>
         GET_readings None None (snd (delete_all_readings db)) =
           (Inr [], snd (delete_all_readings db))"
  using assms
  by (simp add: delete_all_readings_def GET_readings_def get_readings_def offset_limit_def
      order_by_timestamp_desc_def)

theorem delete_all_then_list_empty_witness:
  "(0::int) \<le> 0 \<and> (0::int) \<le> 9223372036854775807 \<and> (1::int) \<le> 10 \<and> (10::int) \<le> 100 \<and>
   GET_readings (Some 0) (Some 10) (snd (delete_all_readings example_db)) =
     (Inr [], \<lparr>table = [], id_seq = 5\<rparr>)"
  using delete_all_then_list_empty [of 0 10 example_db]
  by (simp add: delete_all_readings_def example_db_def)

text \<open>
  C7 as stated, for any valid \<open>skip\<close>, does not hold: after deleting all readings a
  list with \<open>skip = 2^63\<close>, which the declared constraint \<^verbatim>\<open>ge=0\<close> lets through, is
  answered with 500 and not with the empty sequence, since the database refuses the
  \<^verbatim>\<open>OFFSET\<close> whatever the table holds.
\<close>

theorem delete_all_then_huge_skip_fails:
  "GET_readings (Some 9223372036854775808) (Some 1) (snd (delete_all_readings example_db)) =
     (Inl HTTP_500, \<lparr>table = [], id_seq = 5\<rparr>)"
  by (simp add: GET_readings_def get_readings_def offset_limit_def delete_all_readings_def
      example_db_def)




text \<open>What each request does to the table.\<close>

lemma perform_table:
  "(case op of
      List_readings skip_param limit_param \<Rightarrow> perform to_naive now op db = db
    | Get_reading i \<Rightarrow> perform to_naive now op db = db
    | Create_reading body \<Rightarrow>
        table (perform to_naive now op db) = table db \<or>
        (\<exists>r. table (perform to_naive now op db) = table db @ [r] \<and>
           row_id r \<notin> set (ids db))
    | Delete_reading i \<Rightarrow>
        table (perform to_naive now op db) = filter (\<lambda>r. row_id r \<noteq> i) (table db)
    | Delete_all_readings \<Rightarrow> table (perform to_naive now op db) = [])"
proof (cases op)
  case (List_readings s l)
  then show ?thesis
    by (simp add: GET_readings_readonly)
next
  case (Create_reading body)
  let ?vals = "\<lparr>v_id = None, v_systolic = Some (systolic body),
      v_diastolic = Some (diastolic body), v_heart_rate = Some (heart_rate body),
      v_timestamp = column_datetime to_naive
        (case timestamp_opt body of Some d \<Rightarrow> d | None \<Rightarrow> Naive now)\<rparr>"
  have same: "snd (create_reading to_naive now body db) = snd (execute_insert ?vals db)"
    by (simp add: create_reading_def Let_def split: prod.splits sum.splits option.splits)
  have "table (snd (execute_insert ?vals db)) = table db \<or>
      (\<exists>r. table (snd (execute_insert ?vals db)) = table db @ [r] \<and>
         row_id r \<notin> set (ids db))"
    by (auto simp: execute_insert_def nextval_def insert_row_def ids_def Let_def)
  with same Create_reading show ?thesis
    by (simp add: POST_readings_def)
next
  case (Get_reading i)
  then show ?thesis
    by (simp add: get_reading_def split: option.splits)
next
  case (Delete_reading i)
  show ?thesis
  proof (cases "query_first_by_id i db")
    case None
    then have "\<forall>r \<in> set (table db). row_id r \<noteq> i"
      by (simp add: query_first_by_id_def find_None_iff)
    then have "filter (\<lambda>r. row_id r \<noteq> i) (table db) = table db"
      by simp
    with None Delete_reading show ?thesis
      by (simp add: delete_reading_def)
  next
    case (Some reading)
    with query_first_by_id_in have "row_id reading = i"
      by blast
    with Some Delete_reading show ?thesis
      by (simp add: delete_reading_def delete_by_id_def)
  qed
next
  case Delete_all_readings
  then show ?thesis
    by (simp add: delete_all_readings_def)
qed

lemma perform_keeps_or_drops:
  assumes "r' \<in> set (table (perform to_naive now op db))" and "row_id r' \<in> set (ids db)"
  shows "r' \<in> set (table db)"
  using perform_table [where op = op and to_naive = to_naive and now = now and db = db] assms
  by (cases op) (auto simp: ids_def)

text \<open>
  C9. No request changes a reading that exists. For each of list, create, get, delete
  and delete-all, on a database whose ids are distinct: a row of the table after the
  request that has the id of a row before it is that row, with the same systolic,
  diastolic, heart rate and timestamp. List and get leave the database as it is, create
  leaves the table as it is or appends one row with a new id, delete removes the rows
  with the given id, and delete-all removes every row.
\<close>

theorem readings_never_mutated:
  assumes "distinct (ids db)"
  shows "(\<forall>r \<in> set (table db). \<forall>r' \<in> set (table (perform to_naive now op db)).
            row_id r' = row_id r \<longrightarrow> r' = r) \<and>
         (case op of
            List_readings skip_param limit_param \<Rightarrow> perform to_naive now op db = db
          | Get_reading i \<Rightarrow> perform to_naive now op db = db
          | Create_reading body \<Rightarrow>
              table (perform to_naive now op db) = table db \<or>
              (\<exists>r. table (perform to_naive now op db) = table db @ [r] \<and>
                 row_id r \<notin> set (ids db))
          | Delete_reading i \<Rightarrow>
              table (perform to_naive now op db) = filter (\<lambda>r. row_id r \<noteq> i) (table db)
          | Delete_all_readings \<Rightarrow> table (perform to_naive now op db) = [])"
proof -
  have "r' = r"
    if "r \<in> set (table db)" and "r' \<in> set (table (perform to_naive now op db))"
      and "row_id r' = row_id r" for r r'
  proof -
    from that have "row_id r' \<in> set (ids db)"
      by (simp add: ids_def)
    with that(2) have "r' \<in> set (table db)"
      by (rule perform_keeps_or_drops)
    with assms that(1,3) show ?thesis
      by (auto simp: ids_def distinct_map inj_on_def)
  qed
  with perform_table [where op = op and to_naive = to_naive and now = now and db = db]
  show ?thesis
    by blast
qed

theorem readings_never_mutated_witness:
  "distinct (ids example_db) \<and>
   table (perform utc_column 99 (Delete_reading 2) example_db) =
     [\<lparr>systolic = 120, diastolic = 80, heart_rate = 60, row_id = 1, timestamp = 10\<rparr>,
      \<lparr>systolic = 110, diastolic = 70, heart_rate = 65, row_id = 4, timestamp = 20\<rparr>] \<and>
   list_all (\<lambda>r'. list_all (\<lambda>r. row_id r' \<noteq> row_id r \<or> r' = r) (table example_db))
     (table (perform utc_column 99 (Delete_reading 2) example_db))"
proof -
  have d: "distinct (ids example_db)"
    by (simp add: ids_def example_db_def)
  have t: "table (perform utc_column 99 (Delete_reading 2) example_db) =
     [\<lparr>systolic = 120, diastolic = 80, heart_rate = 60, row_id = 1, timestamp = 10\<rparr>,
      \<lparr>systolic = 110, diastolic = 70, heart_rate = 65, row_id = 4, timestamp = 20\<rparr>]"
    by (simp add: delete_reading_def delete_by_id_def query_first_by_id_def example_db_def)
  from readings_never_mutated [OF d, where to_naive = utc_column and now = 99 and
      op = "Delete_reading 2"] have
    "list_all (\<lambda>r'. list_all (\<lambda>r. row_id r' \<noteq> row_id r \<or> r' = r) (table example_db))
       (table (perform utc_column 99 (Delete_reading 2) example_db))"
    unfolding list_all_iff by blast
  with d t show ?thesis
    by blast
qed

text \<open>
  C10. A list without parameters is the list with \<open>skip = 0\<close> and \<open>limit = 100\<close>, and
  a parameter left out alone takes its default as well. The parameterless list returns
  the first 100 rows in descending order of timestamp, and no row left out is more
  recent than a row returned.
\<close>

theorem list_defaults:
  "GET_readings None None db = GET_readings (Some 0) (Some 100) db \<and>
   GET_readings None (Some limit) db = GET_readings (Some 0) (Some limit) db \<and>
   GET_readings (Some skip) None db = GET_readings (Some skip) (Some 100) db \<and>
   GET_readings None None db = (Inr (take 100 (order_by_timestamp_desc (table db))), db) \<and>
   (\<forall>a \<in> set (take 100 (order_by_timestamp_desc (table db))).
      \<forall>b \<in> set (drop 100 (order_by_timestamp_desc (table db))). timestamp b \<le> timestamp a)"
proof -
  have "\<forall>a \<in> set (take 100 (order_by_timestamp_desc (table db))).
      \<forall>b \<in> set (drop 100 (order_by_timestamp_desc (table db))). timestamp b \<le> timestamp a"
    using sorted_wrt_split [OF sorted_desc_order_by] by blast
  then show ?thesis
    by (simp add: GET_readings_def get_readings_def offset_limit_def)
qed

theorem list_defaults_witness:
  "length (table long_db) = 101 \<and>
   (\<exists>rs. GET_readings None None long_db = (Inr rs, long_db) \<and> length rs = 100 \<and>
      length (drop 100 (order_by_timestamp_desc (table long_db))) = 1 \<and>
      (\<forall>a \<in> set rs. \<forall>b \<in> set (drop 100 (order_by_timestamp_desc (table long_db))).
         timestamp b \<le> timestamp a))"
proof -
  have len: "length (table long_db) = 101"
    by (simp add: long_db_def)
  then have "length (order_by_timestamp_desc (table long_db)) = 101"
    by (simp add: order_by_timestamp_desc_def)
  then have l100: "length (take 100 (order_by_timestamp_desc (table long_db))) = 100"
    and l1: "length (drop 100 (order_by_timestamp_desc (table long_db))) = 1"
    by simp_all
  have page: "GET_readings None None long_db =
      (Inr (take 100 (order_by_timestamp_desc (table long_db))), long_db)"
    and recent: "\<forall>a \<in> set (take 100 (order_by_timestamp_desc (table long_db))).
      \<forall>b \<in> set (drop 100 (order_by_timestamp_desc (table long_db))).
        timestamp b \<le> timestamp a"
    using list_defaults [of long_db 1 0] by blast+
  from page l100 l1 recent have
    "\<exists>rs. GET_readings None None long_db = (Inr rs, long_db) \<and> length rs = 100 \<and>
      length (drop 100 (order_by_timestamp_desc (table long_db))) = 1 \<and>
      (\<forall>a \<in> set rs. \<forall>b \<in> set (drop 100 (order_by_timestamp_desc (table long_db))).
         timestamp b \<le> timestamp a)"
    by blast
  with len show ?thesis
    by blast
qed

section \<open>The migration\<close>

subsection \<open>The constructor call of the loop\<close>

text \<open>
  The keywords of \<^verbatim>\<open>create_reading\<close> are columns of the mapped class and the declarative
  constructor takes them. \<^verbatim>\<open>note\<close> is no column of it, so with that constructor the call
  of lines 59 to 66 raises whatever the row holds: a row is never turned into an object.
\<close>

lemma constructor_accepts_columns:
  "declarative_constructor
     [(''systolic'', a), (''diastolic'', b), (''heart_rate'', c), (''timestamp'', d)] =
   Inr [(''systolic'', a), (''diastolic'', b), (''heart_rate'', c), (''timestamp'', d)]"
  by (simp add: mapped_attributes_def and_then_def)

lemma constructor_refuses_note:
  "declarative_constructor
     [(''id'', a), (''systolic'', b), (''diastolic'', c), (''heart_rate'', d),
      (''timestamp'', e), (''note'', f)] = Inl (TypeError ''note'')"
  by (simp add: mapped_attributes_def and_then_def)

lemma new_reading_raises: "\<exists>e. new_reading declarative_constructor parse d = Inl e"
  unfolding new_reading_def and_then_def constructor_refuses_note
  by (simp split: sum.splits)

lemma add_readings_Inr:
  assumes "add_readings declarative_constructor parse rs db = (Inr u, db')"
  shows "rs = [] \<and> db' = db"
proof (cases rs)
  case Nil
  with assms show ?thesis by simp
next
  case (Cons r rs')
  obtain e where "new_reading declarative_constructor parse r = Inl e"
    using new_reading_raises by blast
  with Cons assms show ?thesis by simp
qed

text \<open>The loop, for any constructor: it touches nothing but the pending objects.\<close>

lemma add_readings_keeps_database:
  "add_readings init parse rs db = (res, db') \<Longrightarrow>
     txn db' = txn db \<and> committed db' = committed db"
proof (induction rs arbitrary: db)
  case Nil
  then show ?case by simp
next
  case (Cons r rs)
  show ?case
  proof (cases "new_reading init parse r")
    case (Inl e)
    with Cons.prems show ?thesis by simp
  next
    case (Inr obj)
    with Cons.prems have "add_readings init parse rs (db_add obj db) = (res, db')"
      by simp
    from Cons.IH [OF this] show ?thesis
      by (simp add: db_add_def)
  qed
qed


subsection \<open>One \<^verbatim>\<open>INSERT\<close>\<close>




subsection \<open>Commit and rollback\<close>




lemma commit_empty_pending:
  "pending db = [] \<Longrightarrow> db_commit db_now db = (Inr (), db\<lparr>committed := table (txn db)\<rparr>)"
  by (simp add: db_commit_def)

lemma db_close_rollback:
  "db_close (db_rollback db) = \<lparr>table = committed db, id_seq = id_seq (txn db)\<rparr>"
  by (cases db, cases "txn db") (simp add: db_close_def db_rollback_def)

lemma db_close_committed:
  "committed db = table (txn db) \<Longrightarrow> db_close db = txn db"
  by (cases db, cases "txn db") (simp add: db_close_def db_rollback_def)


subsection \<open>A run of \<^verbatim>\<open>migrate_data\<close>, for any constructor\<close>








subsection \<open>A run with the declarative constructor\<close>

lemma migrate_try_raises:
  assumes "migrate_try declarative_constructor parse db_now src (SessionLocal tgt) =
             (Inl e, src', db')"
  shows "committed db' = table tgt \<and> id_seq (txn db') = id_seq tgt"
proof (cases src)
  case NoFile
  with assms show ?thesis
    by (auto simp: migrate_try_def sqlite_fetchall_def SessionLocal_def)
next
  case NoTable
  with assms show ?thesis
    by (auto simp: migrate_try_def sqlite_fetchall_def SessionLocal_def)
next
  case (Table readings)
  obtain r1 db1 where loop:
    "add_readings declarative_constructor parse readings (SessionLocal tgt) = (r1, db1)"
    by (cases "add_readings declarative_constructor parse readings (SessionLocal tgt)")
  show ?thesis
  proof (cases r1)
    case (Inl e1)
    with assms Table loop have "db' = db1"
      by (simp add: migrate_try_def sqlite_fetchall_def)
    with add_readings_keeps_database [OF loop] show ?thesis
      by (simp add: SessionLocal_def)
  next
    case (Inr u)
    with loop add_readings_Inr have db1: "db1 = SessionLocal tgt"
      by blast
    have commit1: "db_commit db_now (SessionLocal tgt) = (Inr (), SessionLocal tgt)"
      by (simp add: db_commit_def SessionLocal_def)
    obtain r3 db3 where setval: "execute_setval (SessionLocal tgt) = (r3, db3)"
      by (cases "execute_setval (SessionLocal tgt)")
    show ?thesis
    proof (cases r3)
      case (Inl e3)
      with setval have "db3 = SessionLocal tgt"
        by (auto simp: execute_setval_def split: option.splits if_splits)
      moreover from assms Table loop Inr db1 commit1 setval Inl have "db' = db3"
        by (simp add: migrate_try_def sqlite_fetchall_def)
      ultimately show ?thesis
        by (simp add: SessionLocal_def)
    next
      case (Inr u3)
      with setval have "pending db3 = []"
        by (auto simp: execute_setval_def SessionLocal_def split: option.splits if_splits)
      then have "fst (db_commit db_now db3) = Inr ()"
        by (simp add: commit_empty_pending)
      with assms Table loop \<open>r1 = Inr u\<close> db1 commit1 setval Inr show ?thesis
        by (auto simp: migrate_try_def sqlite_fetchall_def split: prod.splits sum.splits)
    qed
  qed
qed

lemma max_id_None: "max_id xs = None \<longleftrightarrow> xs = []"
  by (cases xs) (simp_all split: option.splits)

lemma max_id_bound: "max_id xs = Some m \<Longrightarrow> i \<in> set xs \<Longrightarrow> i \<le> m"
  by (induction xs arbitrary: m) (auto simp: max_id_None split: option.splits)

lemma migrate_try_returns:
  assumes "migrate_try declarative_constructor parse db_now src (SessionLocal tgt) =
             (Inr n, src', db')"
  shows "committed db' = table tgt \<and> table (txn db') = table tgt \<and>
         (id_seq (txn db') = id_seq tgt \<or>
          (\<exists>m. max_id (ids tgt) = Some m \<and> id_seq (txn db') = m + 1))"
proof (cases src)
  case NoFile
  with assms show ?thesis
    by (simp add: migrate_try_def sqlite_fetchall_def)
next
  case NoTable
  with assms show ?thesis
    by (simp add: migrate_try_def sqlite_fetchall_def)
next
  case (Table readings)
  obtain r1 db1 where loop:
    "add_readings declarative_constructor parse readings (SessionLocal tgt) = (r1, db1)"
    by (cases "add_readings declarative_constructor parse readings (SessionLocal tgt)")
  with assms Table obtain u where r1: "r1 = Inr u"
    by (cases r1) (simp_all add: migrate_try_def sqlite_fetchall_def)
  with loop add_readings_Inr have db1: "db1 = SessionLocal tgt"
    by blast
  have commit1: "db_commit db_now (SessionLocal tgt) = (Inr (), SessionLocal tgt)"
    by (simp add: db_commit_def SessionLocal_def)
  obtain r3 db3 where setval: "execute_setval (SessionLocal tgt) = (r3, db3)"
    by (cases "execute_setval (SessionLocal tgt)")
  with assms Table loop r1 db1 commit1 obtain u3 where r3: "r3 = Inr u3"
    by (cases r3) (simp_all add: migrate_try_def sqlite_fetchall_def)
  from setval r3 have db3: "pending db3 = [] \<and> committed db3 = table tgt \<and>
      table (txn db3) = table tgt \<and>
      (id_seq (txn db3) = id_seq tgt \<or>
        (\<exists>m. max_id (ids tgt) = Some m \<and> id_seq (txn db3) = m + 1))"
    by (auto simp: execute_setval_def SessionLocal_def split: option.splits if_splits)
  then have "db_commit db_now db3 = (Inr (), db3\<lparr>committed := table (txn db3)\<rparr>)"
    by (simp add: commit_empty_pending)
  with assms Table loop r1 db1 commit1 setval r3 have "db' = db3\<lparr>committed := table (txn db3)\<rparr>"
    by (simp add: migrate_try_def sqlite_fetchall_def)
  with db3 show ?thesis
    by auto
qed

lemma migrate_data_raises:
  assumes "migrate_data parse db_now src tgt = (Failed e, src', tgt')"
  shows "tgt' = tgt"
proof -
  obtain r1 s1 db1 where run:
    "migrate_try declarative_constructor parse db_now src (SessionLocal tgt) = (r1, s1, db1)"
    by (cases "migrate_try declarative_constructor parse db_now src (SessionLocal tgt)")
  from assms run obtain e1 where r1: "r1 = Inl e1" and tgt': "tgt' = db_close (db_rollback db1)"
    by (cases src; cases r1) (simp_all add: migrate_data_def migrate_data_with_def)
  from migrate_try_raises run r1 have "committed db1 = table tgt \<and> id_seq (txn db1) = id_seq tgt"
    by blast
  with tgt' show ?thesis
    by (cases tgt) (simp add: db_close_rollback)
qed

text \<open>A run of the migration keeps the target well-formed.\<close>

lemma wf_after_migrate:
  assumes "wf_database tgt" and "migrate_data parse db_now src tgt = (out, src', tgt')"
  shows "wf_database tgt'"
proof (cases out)
  case NotFound
  obtain r1 s1 db1 where run:
    "migrate_try declarative_constructor parse db_now src (SessionLocal tgt) = (r1, s1, db1)"
    by (cases "migrate_try declarative_constructor parse db_now src (SessionLocal tgt)")
  with assms NotFound show ?thesis
    by (cases src; cases r1) (simp_all add: migrate_data_def migrate_data_with_def)
next
  case (Failed e)
  with assms migrate_data_raises show ?thesis
    by blast
next
  case (Migrated n)
  obtain r1 s1 db1 where run:
    "migrate_try declarative_constructor parse db_now src (SessionLocal tgt) = (r1, s1, db1)"
    by (cases "migrate_try declarative_constructor parse db_now src (SessionLocal tgt)")
  with assms(2) Migrated have r1: "r1 = Inr n" and tgt': "tgt' = db_close db1"
    by (cases src; cases r1; simp add: migrate_data_def migrate_data_with_def)+
  from migrate_try_returns run r1 have db1:
    "committed db1 = table tgt \<and> table (txn db1) = table tgt \<and>
         (id_seq (txn db1) = id_seq tgt \<or>
          (\<exists>m. max_id (ids tgt) = Some m \<and> id_seq (txn db1) = m + 1))"
    by blast
  then have "db_close db1 = txn db1"
    by (intro db_close_committed) simp
  with assms(1) tgt' db1 show ?thesis
    by (auto simp: wf_database_def ids_def list_all_iff dest!: max_id_bound)
qed

text \<open>
  With at least one row in the source, the run ends in the \<^verbatim>\<open>except\<close> clause and the
  target is what it was: no row is ever migrated.
\<close>

lemma migrate_nonempty_source:
  "\<exists>e. migrate_data parse db_now (Table (r # rs)) tgt = (Failed e, Table (r # rs), tgt)"
proof -
  obtain e where "new_reading declarative_constructor parse r = Inl e"
    using new_reading_raises by blast
  then have "migrate_data parse db_now (Table (r # rs)) tgt = (Failed e, Table (r # rs), tgt)"
    by (simp add: migrate_data_def migrate_data_with_def migrate_try_def sqlite_fetchall_def
        SessionLocal_def db_close_def db_rollback_def)
  then show ?thesis ..
qed

section \<open>Claims about the migration\<close>

text \<open>
  C2. The claim is that migrating a source with the rows 1 to 5 into an empty target
  leaves the target with those five rows and that the next creation gets id 6. The run
  of the code on such a source: with the columns the model declares, the lookup of
  \<^verbatim>\<open>note\<close> on the first row raises \<^verbatim>\<open>KeyError\<close>; with a \<^verbatim>\<open>note\<close> column in the source,
  the constructor raises \<^verbatim>\<open>TypeError\<close>. Either way the target stays empty, and the next
  creation on it gets id 1.
\<close>

theorem migrate_five_rows_raises:
  "migrate_data example_parse 7 (Table five_rows) empty_database =
     (Failed (KeyError ''note''), Table five_rows, empty_database) \<and>
   migrate_data example_parse 7 (Table five_rows_note) empty_database =
     (Failed (TypeError ''note''), Table five_rows_note, empty_database) \<and>
   fst (POST_readings utc_column 99
          \<lparr>systolic = 120, diastolic = 80, heart_rate = 60, timestamp_opt = None\<rparr>
          empty_database) =
     Inr \<lparr>systolic = 120, diastolic = 80, heart_rate = 60, row_id = 1, timestamp = 99\<rparr>"
proof -
  have "new_reading declarative_constructor example_parse (source_row 1) =
      Inl (KeyError ''note'')"
    by (simp add: new_reading_def source_row_def getitem_def and_then_def fromisoformat_def
        example_parse_def)
  then have a: "migrate_data example_parse 7 (Table five_rows) empty_database =
     (Failed (KeyError ''note''), Table five_rows, empty_database)"
    by (simp add: migrate_data_def migrate_data_with_def migrate_try_def sqlite_fetchall_def
        SessionLocal_def db_close_def db_rollback_def five_rows_def empty_database_def)
  have "new_reading declarative_constructor example_parse (source_row_note 1) =
      Inl (TypeError ''note'')"
    by (simp add: new_reading_def source_row_note_def source_row_def getitem_def and_then_def
        fromisoformat_def example_parse_def mapped_attributes_def)
  then have b: "migrate_data example_parse 7 (Table five_rows_note) empty_database =
     (Failed (TypeError ''note''), Table five_rows_note, empty_database)"
    by (simp add: migrate_data_def migrate_data_with_def migrate_try_def sqlite_fetchall_def
        SessionLocal_def db_close_def db_rollback_def five_rows_note_def empty_database_def)
  have v: "validate_base
      \<lparr>systolic = 120, diastolic = 80, heart_rate = 60, timestamp_opt = None\<rparr>"
    by (simp add: validate_base_def)
  have c: "fst (POST_readings utc_column 99
          \<lparr>systolic = 120, diastolic = 80, heart_rate = 60, timestamp_opt = None\<rparr>
          empty_database) =
     Inr \<lparr>systolic = 120, diastolic = 80, heart_rate = 60, row_id = 1, timestamp = 99\<rparr>"
    by (simp add: POST_readings_def v create_reading_wf [OF wf_empty_database v]
        column_datetime_def)
      (simp add: empty_database_def)
  from a b c show ?thesis by simp
qed



end
